theory Spec2Isabelle
  imports Complex_Main
begin

section \<open>Tensors, operations and the graph under construction\<close>

text \<open>
  The module builds a TensorFlow graph: its functions receive symbolic tensors, create
  new nodes and register operations in collections of the default graph. The graph is
  the same on every rank; what differs per rank are the values the nodes take when a
  session runs them. Nodes are therefore a datatype, and their values are given by an
  evaluator over all ranks of the process group.

  A \<open>LocalTensor\<close> is a tensor this module did not build (a gradient computed by the
  base optimizer, the loss): it has a name and a static shape, and each rank computes its
  own value for it. Names and shapes of nodes built by this module are assigned by
  TensorFlow and are not represented: asking for them gives \<open>NotRepresented\<close>.

  Element values are exact rationals: floating-point rounding is abstracted, and the
  integer indices of an \<open>IndexedSlices\<close> are the integral rationals. Arrays are
  flattened in row-major order, so concatenation along the leading dimension is list
  concatenation.
\<close>

type_synonym shape = "nat list"
type_synonym array = "rat list"

datatype tensor =
    LocalTensor string shape
  | ReadVariable string
  | HorovodAllreduce string tensor
  | HorovodAllgather string tensor
  | HorovodBroadcast string tensor nat
  | Div string tensor nat
  | Identity "tensor list" tensor

datatype grad =
    Tensor tensor
  | IndexedSlices (slice_values: tensor) (slice_indices: tensor) (dense_shape: "tensor option")

datatype operation =
    Assign (op_graph: nat) string tensor
  | Group (op_graph: nat) "operation list"

datatype error = AttributeError | ValueError | NotRepresented

datatype initializer = constant_initializer rat | rank_initializer "nat \<Rightarrow> array"

record variable_def =
  var_shape :: shape
  var_initializer :: initializer
  var_trainable :: bool

record graph =
  graph_id :: nat
  variables :: "(string \<times> variable_def) list"
  collections :: "string \<Rightarrow> operation list"
  mpi_ops :: "tensor list"

text \<open>The two collection keys: \<open>GraphKeys.GRAD_FLIP_OPS\<close> of this module and
  \<open>tf.GraphKeys.UPDATE_OPS\<close> of TensorFlow.\<close>

definition GRAD_FLIP_OPS :: string where
  "GRAD_FLIP_OPS = ''horovod_grad_flip_ops''"

definition UPDATE_OPS :: string where
  "UPDATE_OPS = ''update_ops''"

definition add_to_collection :: "graph \<Rightarrow> string \<Rightarrow> operation \<Rightarrow> graph" where
  "add_to_collection g key opn = g\<lparr>collections := (collections g)(key := collections g key @ [opn])\<rparr>"

definition get_collection :: "graph \<Rightarrow> string \<Rightarrow> operation list" where
  "get_collection g key = collections g key"

text \<open>A new \<open>tf.Graph\<close>: no variables, empty collections, no operations.\<close>

definition new_graph :: "nat \<Rightarrow> graph" where
  "new_graph gid = \<lparr>graph_id = gid, variables = [], collections = (\<lambda>key. []), mpi_ops = []\<rparr>"

text \<open>\<open>tf.get_variable\<close> in the default variable scope (the module opens none, and
  \<open>tf.name_scope\<close> does not prefix variable names): a name that is already in the
  variable store is refused with a ValueError, a new one is created and joins the global
  variables. The handle returned is the variable's name.\<close>

definition get_variable ::
  "graph \<Rightarrow> string \<Rightarrow> shape \<Rightarrow> initializer \<Rightarrow> bool \<Rightarrow> error + (string \<times> graph)" where
  "get_variable g nm shp init trainable =
     (if nm \<in> set (map fst (variables g)) then Inl ValueError
      else Inr (nm, g\<lparr>variables := variables g @
                  [(nm, \<lparr>var_shape = shp, var_initializer = init, var_trainable = trainable\<rparr>)]\<rparr>))"

definition global_variables :: "graph \<Rightarrow> string list" where
  "global_variables g = map fst (variables g)"

text \<open>The attributes the deferred path reads from a gradient. \<open>IndexedSlices.name\<close> is
  the name of its values; an \<open>IndexedSlices\<close> has no \<open>get_shape\<close> method, so the call
  raises AttributeError.\<close>

fun tensor_name :: "tensor \<Rightarrow> error + string" where
  "tensor_name (LocalTensor nm shp) = Inr nm"
| "tensor_name t = Inl NotRepresented"

fun tensor_shape :: "tensor \<Rightarrow> error + shape" where
  "tensor_shape (LocalTensor nm shp) = Inr shp"
| "tensor_shape t = Inl NotRepresented"

fun grad_name :: "grad \<Rightarrow> error + string" where
  "grad_name (Tensor t) = tensor_name t"
| "grad_name (IndexedSlices vals inds dshape) = tensor_name vals"

fun get_shape :: "grad \<Rightarrow> error + shape" where
  "get_shape (Tensor t) = tensor_shape t"
| "get_shape (IndexedSlices vals inds dshape) = Inl AttributeError"

text \<open>Python's \<open>str.split(sep)\<close> for a one-character separator, and the buffer name
  \<open>''.join(grad.name.split(':')[:-1]) + suffix\<close>.\<close>

fun split_on :: "char \<Rightarrow> string \<Rightarrow> string list" where
  "split_on c [] = [[]]"
| "split_on c (x # xs) =
     (if x = c then [] # split_on c xs
      else (case split_on c xs of [] \<Rightarrow> [[x]] | p # ps \<Rightarrow> (x # p) # ps))"

definition buffer_name :: "string \<Rightarrow> string \<Rightarrow> string" where
  "buffer_name nm suffix = concat (butlast (split_on CHR '':'' nm)) @ suffix"

section \<open>The collective operations\<close>

text \<open>The module \<open>horovod.tensorflow.mpi_ops\<close> is not part of the sources. Building one
  of its operations adds an MPI node to the graph; the graph records them in the order
  they are created. What the nodes compute is given by the collective service, from the
  values the ranks contribute, in rank order.\<close>

text \<open>Modelled from the spec: \<open>_allreduce\<close> of \<open>mpi_ops\<close>, which is missing; it builds the
  node of the collective \<open>allreduce(tensor)\<close>.\<close>

definition mpi_ops_allreduce :: "graph \<Rightarrow> string \<Rightarrow> tensor \<Rightarrow> tensor \<times> graph" where
  "mpi_ops_allreduce g device t =
     (HorovodAllreduce device t, g\<lparr>mpi_ops := mpi_ops g @ [HorovodAllreduce device t]\<rparr>)"

text \<open>Modelled from the spec: \<open>allgather\<close> of \<open>mpi_ops\<close>, which is missing; it builds the
  node of the collective \<open>allgather(tensor)\<close>.\<close>

definition mpi_ops_allgather :: "graph \<Rightarrow> string \<Rightarrow> tensor \<Rightarrow> tensor \<times> graph" where
  "mpi_ops_allgather g device t =
     (HorovodAllgather device t, g\<lparr>mpi_ops := mpi_ops g @ [HorovodAllgather device t]\<rparr>)"

text \<open>Modelled from the spec: \<open>broadcast\<close> of \<open>mpi_ops\<close>, which is missing; it builds the
  node of the collective \<open>broadcast(tensor, root)\<close>.\<close>

definition mpi_ops_broadcast :: "graph \<Rightarrow> string \<Rightarrow> tensor \<Rightarrow> nat \<Rightarrow> tensor \<times> graph" where
  "mpi_ops_broadcast g device t root_rank =
     (HorovodBroadcast device t root_rank,
      g\<lparr>mpi_ops := mpi_ops g @ [HorovodBroadcast device t root_rank]\<rparr>)"

text \<open>Modelled from the spec: the element-wise sum of the collective \<open>allreduce\<close>, which
  is computed by the missing collective service. It needs the same shape on every rank;
  anything else is a fatal collective error, \<open>None\<close>.\<close>

definition elementwise_add :: "array \<Rightarrow> array \<Rightarrow> array option" where
  "elementwise_add a b = (if length a = length b then Some (map2 (+) a b) else None)"

text \<open>Modelled from the spec: the value of the collective \<open>allreduce\<close>, computed by the
  missing collective service: the element-wise sum across all ranks.\<close>

fun collective_sum :: "array option list \<Rightarrow> array option" where
  "collective_sum [] = None"
| "collective_sum [x] = x"
| "collective_sum (x # y # ys) =
     (case x of None \<Rightarrow> None
      | Some a \<Rightarrow> (case collective_sum (y # ys) of None \<Rightarrow> None
                   | Some b \<Rightarrow> elementwise_add a b))"

text \<open>Modelled from the spec: the value of the collective \<open>allgather\<close>, computed by the
  missing collective service: the concatenation across ranks along the leading
  dimension.\<close>

fun collective_gather :: "array option list \<Rightarrow> array option" where
  "collective_gather [] = Some []"
| "collective_gather (x # xs) =
     (case x of None \<Rightarrow> None
      | Some a \<Rightarrow> (case collective_gather xs of None \<Rightarrow> None
                   | Some b \<Rightarrow> Some (a @ b)))"

section \<open>Running the graph\<close>

text \<open>
  The value of a node on rank \<open>r\<close>, in a group of \<open>n\<close> ranks that all run the same
  fetch: \<open>feed nm q\<close> is the value rank \<open>q\<close> computes for the local tensor \<open>nm\<close> in this
  step, \<open>vars nm q\<close> the current value of variable \<open>nm\<close> on rank \<open>q\<close>.
  \<open>Div device t k\<close> is \<open>tf.div(t, tf.cast(k, t.dtype))\<close>; a control dependency does
  not change the value of \<open>tf.identity\<close>. The value of a broadcast is the value on the
  root rank (modelled from the spec, like the two other collectives).
\<close>

fun eval :: "nat \<Rightarrow> (string \<Rightarrow> nat \<Rightarrow> array) \<Rightarrow> (string \<Rightarrow> nat \<Rightarrow> array) \<Rightarrow> tensor \<Rightarrow> nat
    \<Rightarrow> array option" where
  "eval n feed vars (LocalTensor nm shp) r = Some (feed nm r)"
| "eval n feed vars (ReadVariable nm) r = Some (vars nm r)"
| "eval n feed vars (HorovodAllreduce device t) r =
     collective_sum (map (\<lambda>q. eval n feed vars t q) [0..<n])"
| "eval n feed vars (HorovodAllgather device t) r =
     collective_gather (map (\<lambda>q. eval n feed vars t q) [0..<n])"
| "eval n feed vars (HorovodBroadcast device t root_rank) r = eval n feed vars t root_rank"
| "eval n feed vars (Div device t k) r =
     map_option (map (\<lambda>x. x / of_nat k)) (eval n feed vars t r)"
| "eval n feed vars (Identity deps t) r = eval n feed vars t r"

text \<open>Running an operation on every rank of the group. An assignment whose value fails
  on some rank fails the run. The members of a group run in list order.\<close>

fun run_op :: "nat \<Rightarrow> (string \<Rightarrow> nat \<Rightarrow> array) \<Rightarrow> operation \<Rightarrow> (string \<Rightarrow> nat \<Rightarrow> array)
      \<Rightarrow> (string \<Rightarrow> nat \<Rightarrow> array) option"
  and run_ops :: "nat \<Rightarrow> (string \<Rightarrow> nat \<Rightarrow> array) \<Rightarrow> operation list \<Rightarrow> (string \<Rightarrow> nat \<Rightarrow> array)
      \<Rightarrow> (string \<Rightarrow> nat \<Rightarrow> array) option" where
  "run_op n feed (Assign gid target src) vars =
     (if list_all (\<lambda>r. eval n feed vars src r \<noteq> None) [0..<n]
      then Some (vars(target := (\<lambda>r. case eval n feed vars src r of
                                         Some a \<Rightarrow> a | None \<Rightarrow> vars target r)))
      else None)"
| "run_op n feed (Group gid ops) vars = run_ops n feed ops vars"
| "run_ops n feed [] vars = Some vars"
| "run_ops n feed (opn # ops) vars =
     (case run_op n feed opn vars of None \<Rightarrow> None
      | Some vars' \<Rightarrow> run_ops n feed ops vars')"

record session =
  var_values :: "string \<Rightarrow> nat \<Rightarrow> array"
  run_calls :: "operation list"

definition session_run ::
  "nat \<Rightarrow> (string \<Rightarrow> nat \<Rightarrow> array) \<Rightarrow> session \<Rightarrow> operation \<Rightarrow> session option" where
  "session_run n feed s opn =
     (case run_op n feed opn (var_values s) of None \<Rightarrow> None
      | Some vars' \<Rightarrow> Some \<lparr>var_values = vars', run_calls = run_calls s @ [opn]\<rparr>)"

section \<open>allreduce\<close>

definition allreduce ::
  "nat \<Rightarrow> graph \<Rightarrow> grad \<Rightarrow> bool \<Rightarrow> string \<Rightarrow> string \<Rightarrow> grad \<times> graph" where
  "allreduce hvd_size g tensor average device_dense device_sparse =
     (case tensor of
        IndexedSlices vals inds dshape \<Rightarrow>
          (let (gathered_values, g1) = mpi_ops_allgather g device_sparse vals;
               (gathered_indices, g2) = mpi_ops_allgather g1 device_sparse inds;
               new_values = (if average then Div device_sparse gathered_values hvd_size
                             else gathered_values)
           in (IndexedSlices new_values gathered_indices dshape, g2))
      | Tensor t \<Rightarrow>
          (let (summed_tensor, g1) = mpi_ops_allreduce g device_dense t;
               new_tensor = (if average then Div device_dense summed_tensor hvd_size
                             else summed_tensor)
           in (Tensor new_tensor, g1)))"

section \<open>The broadcast hook\<close>

text \<open>\<open>broadcast_global_variables\<close> runs inside the hook's \<open>tf.device\<close> block; the
  device in force is an argument here. The list comprehension builds one broadcast and
  one assignment per global variable, in the order of \<open>tf.global_variables()\<close>.\<close>

fun broadcast_assigns :: "graph \<Rightarrow> string \<Rightarrow> nat \<Rightarrow> string list \<Rightarrow> operation list \<times> graph" where
  "broadcast_assigns g device from_rank [] = ([], g)"
| "broadcast_assigns g device from_rank (var # vars) =
     (let (b, g1) = mpi_ops_broadcast g device (ReadVariable var) from_rank;
          (ops, g2) = broadcast_assigns g1 device from_rank vars
      in (Assign (graph_id g) var b # ops, g2))"

definition broadcast_global_variables :: "graph \<Rightarrow> string \<Rightarrow> nat \<Rightarrow> operation \<times> graph" where
  "broadcast_global_variables g device from_rank =
     (let (ops, g1) = broadcast_assigns g device from_rank (global_variables g)
      in (Group (graph_id g) ops, g1))"

record BroadcastGlobalVariablesHook =
  root_rank :: nat
  bcast_op :: "operation option"
  device :: string

definition BroadcastGlobalVariablesHook_init :: "nat \<Rightarrow> string \<Rightarrow> BroadcastGlobalVariablesHook" where
  "BroadcastGlobalVariablesHook_init from_rank dev = \<lparr>root_rank = from_rank, bcast_op = None, device = dev\<rparr>"

text \<open>\<open>begin\<close>, with the default graph as an argument. A \<open>tf.Operation\<close> is truthy, so
  \<open>not self.bcast_op\<close> holds exactly when the attribute is still \<open>None\<close>.\<close>

definition hook_begin ::
  "BroadcastGlobalVariablesHook \<Rightarrow> graph \<Rightarrow> BroadcastGlobalVariablesHook \<times> graph" where
  "hook_begin h g =
     (if (case bcast_op h of None \<Rightarrow> True | Some opn \<Rightarrow> op_graph opn \<noteq> graph_id g)
      then (let (opn, g1) = broadcast_global_variables g (device h) (root_rank h)
            in (h\<lparr>bcast_op := Some opn\<rparr>, g1))
      else (h, g))"

section \<open>The post-step hook\<close>

record PostStepHook =
  grad_flip_ops :: "operation list"
  grad_flip_ops_group :: operation

definition PostStepHook_init :: "graph \<Rightarrow> PostStepHook" where
  "PostStepHook_init g =
     \<lparr>grad_flip_ops = get_collection g GRAD_FLIP_OPS,
      grad_flip_ops_group = Group (graph_id g) (get_collection g GRAD_FLIP_OPS)\<rparr>"

text \<open>\<open>after_run\<close>: the run context is the group size, the values of the local tensors
  in this run and the session.\<close>

definition after_run ::
  "PostStepHook \<Rightarrow> nat \<Rightarrow> (string \<Rightarrow> nat \<Rightarrow> array) \<Rightarrow> session \<Rightarrow> session option" where
  "after_run h n feed s =
     (if length (grad_flip_ops h) > 0 then session_run n feed s (grad_flip_ops_group h)
      else Some s)"

section \<open>The distributed optimizer\<close>

text \<open>The attributes of the optimizer that \<open>compute_gradients\<close> reads. Its name only
  names a \<open>tf.name_scope\<close>, which does not reach variable names.\<close>

record DistributedOptimizer =
  device_dense :: string
  device_sparse :: string
  deferred :: bool

text \<open>The body of the deferred branch for one gradient. Arguments are evaluated left to
  right, so the name is read before \<open>get_shape\<close> is called. The buffer \<open>grad_r\<close> is a
  variable, so \<open>allreduce\<close> takes its dense branch; \<open>tf.identity\<close> of an
  \<open>IndexedSlices\<close> is not represented.\<close>

definition deferred_allreduce ::
  "DistributedOptimizer \<Rightarrow> nat \<Rightarrow> tensor \<Rightarrow> graph \<Rightarrow> grad \<Rightarrow> error + (grad \<times> graph)" where
  "deferred_allreduce opt hvd_size loss g grad =
     (case grad_name grad of Inl e \<Rightarrow> Inl e | Inr nm \<Rightarrow>
      (case get_shape grad of Inl e \<Rightarrow> Inl e | Inr shp \<Rightarrow>
       (case get_variable g (buffer_name nm ''_r'') shp (constant_initializer 0) False of
          Inl e \<Rightarrow> Inl e
        | Inr (grad_r, g1) \<Rightarrow>
       (case get_variable g1 (buffer_name nm ''_c'') shp (constant_initializer 0) False of
          Inl e \<Rightarrow> Inl e
        | Inr (grad_c, g2) \<Rightarrow>
       (case allreduce hvd_size g2 (Tensor (ReadVariable grad_r)) True
               (device_dense opt) (device_sparse opt) of
          (IndexedSlices vals inds dshape, g3) \<Rightarrow> Inl NotRepresented
        | (Tensor reduce_grad, g3) \<Rightarrow>
       (case grad of
          IndexedSlices vals inds dshape \<Rightarrow> Inl NotRepresented
        | Tensor t \<Rightarrow>
            (let avg_grad = Tensor (Identity [loss] reduce_grad);
                 g4 = add_to_collection g3 UPDATE_OPS (Assign (graph_id g3) grad_c t);
                 g5 = add_to_collection g4 GRAD_FLIP_OPS
                        (Assign (graph_id g4) grad_r (ReadVariable grad_c))
             in Inr (avg_grad, g5))))))))"

text \<open>The loop of \<open>compute_gradients\<close> over the pairs of the base optimizer, with the
  list \<open>averaged_gradients\<close> as accumulator. An exception leaves the loop.\<close>

fun reduce_gradients ::
  "DistributedOptimizer \<Rightarrow> nat \<Rightarrow> tensor \<Rightarrow> graph \<Rightarrow> (grad option \<times> 'v) list
     \<Rightarrow> (grad option \<times> 'v) list \<Rightarrow> error + ((grad option \<times> 'v) list \<times> graph)" where
  "reduce_gradients opt hvd_size loss g averaged_gradients [] = Inr (averaged_gradients, g)"
| "reduce_gradients opt hvd_size loss g averaged_gradients ((grad, var) # rest) =
     (case grad of
        Some gr \<Rightarrow>
          (if deferred opt then
             (case deferred_allreduce opt hvd_size loss g gr of
                Inl e \<Rightarrow> Inl e
              | Inr (avg_grad, g1) \<Rightarrow>
                  reduce_gradients opt hvd_size loss g1
                    (averaged_gradients @ [(Some avg_grad, var)]) rest)
           else
             (case allreduce hvd_size g gr True (device_dense opt) (device_sparse opt) of
                (avg_grad, g1) \<Rightarrow>
                  reduce_gradients opt hvd_size loss g1
                    (averaged_gradients @ [(Some avg_grad, var)]) rest))
      | None \<Rightarrow>
          reduce_gradients opt hvd_size loss g (averaged_gradients @ [(None, var)]) rest)"

text \<open>\<open>compute_gradients\<close>: \<open>gradients\<close> is what the base class returned for the loss,
  \<open>hvd_size\<close> the value of \<open>size()\<close>.\<close>

definition compute_gradients ::
  "DistributedOptimizer \<Rightarrow> nat \<Rightarrow> tensor \<Rightarrow> graph \<Rightarrow> (grad option \<times> 'v) list
     \<Rightarrow> error + ((grad option \<times> 'v) list \<times> graph)" where
  "compute_gradients opt hvd_size loss g gradients =
     (if hvd_size > 1 then reduce_gradients opt hvd_size loss g [] gradients
      else Inr (gradients, g))"

section \<open>Training steps\<close>

text \<open>
  The module leaves running the graph to the training loop. A step, as the spec's data
  flow describes it: one \<open>session.run\<close> that fetches the returned gradients and runs the
  operations of \<open>UPDATE_OPS\<close> (among them the assignments to the staged buffers),
  \<open>run_train_op\<close>, then \<open>after_run\<close> of the post-step hook. The gradients are read
  from the variables as they are when the run starts. A new session initialises every
  variable of the graph on every rank.
\<close>

definition initial_value :: "variable_def \<Rightarrow> nat \<Rightarrow> array" where
  "initial_value d r =
     (case var_initializer d of
        constant_initializer c \<Rightarrow> replicate (prod_list (var_shape d)) c
      | rank_initializer f \<Rightarrow> f r)"

definition new_session :: "graph \<Rightarrow> session" where
  "new_session g =
     \<lparr>var_values = (\<lambda>nm r. case map_of (variables g) nm of
                             None \<Rightarrow> [] | Some d \<Rightarrow> initial_value d r),
      run_calls = []\<rparr>"


section \<open>Vocabulary of the statements\<close>

text \<open>The collective nodes the loop body builds for one pair, in the order it builds
  them.\<close>

fun reductions_of :: "DistributedOptimizer \<Rightarrow> grad option \<times> 'v \<Rightarrow> tensor list" where
  "reductions_of opt (None, var) = []"
| "reductions_of opt (Some (IndexedSlices vals inds dshape), var) =
     (if deferred opt then []
      else [HorovodAllgather (device_sparse opt) vals, HorovodAllgather (device_sparse opt) inds])"
| "reductions_of opt (Some (Tensor t), var) =
     (if deferred opt then
        (case tensor_name t of Inl e \<Rightarrow> []
         | Inr nm \<Rightarrow> [HorovodAllreduce (device_dense opt) (ReadVariable (buffer_name nm ''_r''))])
      else [HorovodAllreduce (device_dense opt) t])"

text \<open>An output pair keeps the variable of the input pair and is absent exactly when the
  input gradient is.\<close>

definition kept :: "grad option \<times> 'v \<Rightarrow> grad option \<times> 'v \<Rightarrow> bool" where
  "kept p q = (snd q = snd p \<and> (fst q = None) = (fst p = None))"

text \<open>The deferred path: the dense local gradients of a list (name and shape), the
  buffers created for them (\<open>_r\<close> is the pending buffer, \<open>_c\<close> the staged one), the
  assignment that stages a local gradient, the flip instruction, and the tensor handed
  back in place of the gradient.\<close>

fun local_gradients :: "(grad option \<times> 'v) list \<Rightarrow> (string \<times> shape) list" where
  "local_gradients [] = []"
| "local_gradients ((Some (Tensor (LocalTensor nm shp)), var) # rest) = (nm, shp) # local_gradients rest"
| "local_gradients (p # rest) = local_gradients rest"


definition zero_buffer :: "shape \<Rightarrow> variable_def" where
  "zero_buffer shp = \<lparr>var_shape = shp, var_initializer = constant_initializer 0, var_trainable = False\<rparr>"

definition buffer_names :: "(string \<times> shape) list \<Rightarrow> string list" where
  "buffer_names ls = concat (map (\<lambda>(nm, shp). [buffer_name nm ''_r'', buffer_name nm ''_c'']) ls)"

definition buffer_variables :: "(string \<times> shape) list \<Rightarrow> (string \<times> variable_def) list" where
  "buffer_variables ls =
     concat (map (\<lambda>(nm, shp). [(buffer_name nm ''_r'', zero_buffer shp),
                                (buffer_name nm ''_c'', zero_buffer shp)]) ls)"

definition stage_op :: "nat \<Rightarrow> string \<times> shape \<Rightarrow> operation" where
  "stage_op gid = (\<lambda>(nm, shp). Assign gid (buffer_name nm ''_c'') (LocalTensor nm shp))"

definition flip_op :: "nat \<Rightarrow> string \<times> shape \<Rightarrow> operation" where
  "flip_op gid = (\<lambda>(nm, shp). Assign gid (buffer_name nm ''_r'') (ReadVariable (buffer_name nm ''_c'')))"

definition pending_reduced :: "DistributedOptimizer \<Rightarrow> nat \<Rightarrow> tensor \<Rightarrow> string \<Rightarrow> tensor" where
  "pending_reduced opt n loss nm =
     Identity [loss] (Div (device_dense opt)
       (HorovodAllreduce (device_dense opt) (ReadVariable (buffer_name nm ''_r''))) n)"


section \<open>Pass-through at group size 1\<close>

text \<open>C2. With group size 1, \<open>compute_gradients\<close> returns the list of the base optimizer
  as it is, whatever its entries are (dense, sparse or absent), in deferred mode or not,
  and leaves the graph as it was: no collective node is built, no variable created and
  nothing registered.\<close>

theorem compute_gradients_size_one:
  "compute_gradients opt 1 loss g gradients = Inr (gradients, g)"
  by (simp add: compute_gradients_def)

theorem compute_gradients_size_one_witness:
  "compute_gradients \<lparr>device_dense = [], device_sparse = [], deferred = True\<rparr> 1
       (LocalTensor ''loss:0'' []) (new_graph 0)
       [(Some (Tensor (LocalTensor ''g/w:0'' [2])), ''w''), (None, ''b''),
        (Some (IndexedSlices (LocalTensor ''g/e:0'' [1, 2]) (LocalTensor ''g/i:0'' [1]) None), ''e'')]
   = Inr ([(Some (Tensor (LocalTensor ''g/w:0'' [2])), ''w''), (None, ''b''),
        (Some (IndexedSlices (LocalTensor ''g/e:0'' [1, 2]) (LocalTensor ''g/i:0'' [1]) None), ''e'')],
         new_graph 0)"
  by (rule compute_gradients_size_one)

section \<open>Dense reduction\<close>

lemma collective_sum_closed:
  "xs \<noteq> [] \<Longrightarrow> \<forall>x\<in>set xs. length x = m \<Longrightarrow>
   collective_sum (map Some xs) = Some (map (\<lambda>k. \<Sum>x\<leftarrow>xs. x ! k) [0..<m])"
proof (induction xs rule: induct_list012)
  case 1 then show ?case by simp
next
  case (2 x) then show ?case by (auto simp: map_nth)
next
  case (3 x y zs)
  then show ?case
    apply (simp add: elementwise_add_def)
    apply (rule nth_equalityI)
     apply simp
    apply simp
    done
qed

text \<open>C3. Let the \<open>n\<close> ranks of the group (\<open>n > 0\<close>) hold the values \<open>local 0\<close>, ...,
  \<open>local (n - 1)\<close> of one shape (\<open>m\<close> elements) for a dense tensor. Then \<open>allreduce\<close>
  returns a dense tensor whose value on every rank is, element by element, the sum of
  the local values divided by \<open>n\<close> when \<open>average\<close> is true, and the plain sum when it
  is false.\<close>

theorem allreduce_dense_sum_and_average:
  assumes "0 < n"
    and "\<And>q. q < n \<Longrightarrow> eval n feed vars t q = Some (local q)"
    and "\<And>q. q < n \<Longrightarrow> length (local q) = m"
  shows "\<exists>t'. fst (allreduce n g (Tensor t) average dd ds) = Tensor t' \<and>
           eval n feed vars t' r =
             Some (map (\<lambda>k. if average then (\<Sum>q<n. local q ! k) / of_nat n
                             else (\<Sum>q<n. local q ! k)) [0..<m])"
proof -
  have ne: "map local [0..<n] \<noteq> []" using assms(1) by simp
  have len: "\<forall>x\<in>set (map local [0..<n]). length x = m" using assms(3) by simp
  have "map (\<lambda>q. eval n feed vars t q) [0..<n] = map Some (map local [0..<n])"
    using assms(2) by simp
  then have "collective_sum (map (\<lambda>q. eval n feed vars t q) [0..<n]) =
        Some (map (\<lambda>k. \<Sum>x\<leftarrow>map local [0..<n]. x ! k) [0..<m])"
    using collective_sum_closed [OF ne len] by (simp only:)
  moreover have "(\<Sum>x\<leftarrow>map local [0..<n]. x ! k) = (\<Sum>q<n. local q ! k)" for k
    by (simp add: interv_sum_list_conv_sum_set_nat o_def atLeast0LessThan)
  ultimately have s: "eval n feed vars (HorovodAllreduce dd t) r =
        Some (map (\<lambda>k. \<Sum>q<n. local q ! k) [0..<m])"
    by simp
  show ?thesis
    using s by (cases average) (simp_all add: allreduce_def mpi_ops_allreduce_def o_def)
qed

theorem allreduce_dense_witness:
  "\<exists>t'. fst (allreduce 2 (new_graph 0) (Tensor (LocalTensor ''w_grad:0'' [2])) True [] [])
           = Tensor t' \<and>
     eval 2 (\<lambda>nm q. if q = 0 then [1, 2] else [3, 5]) (\<lambda>nm q. []) t' 0 = Some [2, 7 / 2]"
  using allreduce_dense_sum_and_average [of 2 "\<lambda>nm q. if q = 0 then [1, 2] else [3, 5]"
      "\<lambda>nm q. []" "LocalTensor ''w_grad:0'' [2]" "\<lambda>q. if q = 0 then [1, 2] else [3, 5]" 2
      "new_graph 0" True "[]" "[]" 0]
  by (simp add: upt_rec lessThan_Suc numeral_2_eq_2)

section \<open>Sparse reduction\<close>

lemma collective_gather_Some: "collective_gather (map Some xs) = Some (concat xs)"
  by (induction xs) simp_all

text \<open>C4. Let rank \<open>q\<close> contribute the values \<open>local_values q\<close> and the indices
  \<open>local_indices q\<close> of a sparse gradient. Then \<open>allreduce\<close> returns an
  \<open>IndexedSlices\<close> whose indices are the local indices concatenated in rank order,
  repeated indices included, whose values are the local values concatenated in rank
  order, each divided by the group size when \<open>average\<close> is true, and whose
  \<open>dense_shape\<close> is that of the input.\<close>

theorem allreduce_sparse_gather:
  assumes "\<And>q. q < n \<Longrightarrow> eval n feed vars vals q = Some (local_values q)"
    and "\<And>q. q < n \<Longrightarrow> eval n feed vars inds q = Some (local_indices q)"
  shows "\<exists>vals' inds'.
           fst (allreduce n g (IndexedSlices vals inds dshape) average dd ds)
             = IndexedSlices vals' inds' dshape \<and>
           eval n feed vars inds' r = Some (concat (map local_indices [0..<n])) \<and>
           eval n feed vars vals' r =
             Some (concat (map (\<lambda>q. if average then map (\<lambda>x. x / of_nat n) (local_values q)
                                     else local_values q) [0..<n]))"
proof -
  have v: "map (\<lambda>q. eval n feed vars vals q) [0..<n] = map Some (map local_values [0..<n])"
    using assms(1) by simp
  have i: "map (\<lambda>q. eval n feed vars inds q) [0..<n] = map Some (map local_indices [0..<n])"
    using assms(2) by simp
  have gv: "eval n feed vars (HorovodAllgather ds vals) r = Some (concat (map local_values [0..<n]))"
    using collective_gather_Some [of "map local_values [0..<n]"] v by (simp only: eval.simps)
  have gi: "eval n feed vars (HorovodAllgather ds inds) r = Some (concat (map local_indices [0..<n]))"
    using collective_gather_Some [of "map local_indices [0..<n]"] i by (simp only: eval.simps)
  show ?thesis
    using gv gi
    by (cases average) (simp_all add: allreduce_def mpi_ops_allgather_def map_concat o_def)
qed

theorem allreduce_sparse_witness:
  "\<exists>vals' inds'.
     fst (allreduce 2 (new_graph 0)
            (IndexedSlices (LocalTensor ''e_grad/values:0'' [2]) (LocalTensor ''e_grad/indices:0'' [2]) None)
            True [] [])
       = IndexedSlices vals' inds' None \<and>
     eval 2 (\<lambda>nm q. if nm = ''e_grad/indices:0'' then (if q = 0 then [4, 7] else [7, 1])
                     else (if q = 0 then [2, 4] else [6, 8])) (\<lambda>nm q. []) inds' 0
       = Some [4, 7, 7, 1] \<and>
     eval 2 (\<lambda>nm q. if nm = ''e_grad/indices:0'' then (if q = 0 then [4, 7] else [7, 1])
                     else (if q = 0 then [2, 4] else [6, 8])) (\<lambda>nm q. []) vals' 0
       = Some [1, 2, 3, 4]"
  using allreduce_sparse_gather [of 2
      "\<lambda>nm q. if nm = ''e_grad/indices:0'' then (if q = 0 then [4, 7] else [7, 1])
               else (if q = 0 then [2, 4] else [6, 8])"
      "\<lambda>nm q. []" "LocalTensor ''e_grad/values:0'' [2]"
      "\<lambda>q. if q = 0 then [2, 4] else [6, 8]"
      "LocalTensor ''e_grad/indices:0'' [2]"
      "\<lambda>q. if q = 0 then [4, 7] else [7, 1]"
      "new_graph 0" None True "[]" "[]" 0]
  by (simp add: upt_rec numeral_2_eq_2)

section \<open>The loop of compute_gradients\<close>

lemma buffer_name_r_neq_c [simp]:
  "buffer_name nm ''_r'' \<noteq> buffer_name nm' ''_c''" "buffer_name nm' ''_c'' \<noteq> buffer_name nm ''_r''"
proof -
  have "last (buffer_name nm ''_r'') = CHR ''r''" "last (buffer_name nm' ''_c'') = CHR ''c''"
    by (simp_all add: buffer_name_def)
  then show "buffer_name nm ''_r'' \<noteq> buffer_name nm' ''_c''" "buffer_name nm' ''_c'' \<noteq> buffer_name nm ''_r''"
    by auto
qed

lemma UPDATE_neq_FLIP [simp]: "UPDATE_OPS \<noteq> GRAD_FLIP_OPS" "GRAD_FLIP_OPS \<noteq> UPDATE_OPS"
  by (simp_all add: UPDATE_OPS_def GRAD_FLIP_OPS_def)

lemma deferred_allreduce_local:
  "deferred_allreduce opt n loss g (Tensor (LocalTensor nm shp)) =
     (if buffer_name nm ''_r'' \<in> set (global_variables g) \<or> buffer_name nm ''_c'' \<in> set (global_variables g)
      then Inl ValueError
      else Inr (Tensor (Identity [loss] (Div (device_dense opt)
                  (HorovodAllreduce (device_dense opt) (ReadVariable (buffer_name nm ''_r''))) n)),
                g\<lparr>variables := variables g @
                     [(buffer_name nm ''_r'', zero_buffer shp), (buffer_name nm ''_c'', zero_buffer shp)],
                   mpi_ops := mpi_ops g @
                     [HorovodAllreduce (device_dense opt) (ReadVariable (buffer_name nm ''_r''))],
                   collections := (collections g)
                     (UPDATE_OPS := collections g UPDATE_OPS @
                        [Assign (graph_id g) (buffer_name nm ''_c'') (LocalTensor nm shp)],
                      GRAD_FLIP_OPS := collections g GRAD_FLIP_OPS @
                        [Assign (graph_id g) (buffer_name nm ''_r'') (ReadVariable (buffer_name nm ''_c''))])\<rparr>))"
  by (simp add: deferred_allreduce_def get_variable_def global_variables_def allreduce_def
      mpi_ops_allreduce_def add_to_collection_def zero_buffer_def)

lemma deferred_allreduce_Inr_local:
  "deferred_allreduce opt n loss g gr = Inr res \<Longrightarrow> \<exists>nm shp. gr = Tensor (LocalTensor nm shp)"
  apply (cases gr)
  subgoal for t by (cases t) (simp_all add: deferred_allreduce_def)
  subgoal for vals inds dshape by (cases vals) (simp_all add: deferred_allreduce_def)
  done

lemma allreduce_effect:
  "allreduce n g gr True (device_dense opt) (device_sparse opt) = (a, g1) \<Longrightarrow> \<not> deferred opt \<Longrightarrow>
   mpi_ops g1 = mpi_ops g @ reductions_of opt (Some gr, var) \<and> variables g1 = variables g \<and>
   collections g1 = collections g \<and> graph_id g1 = graph_id g"
  by (cases gr) (auto simp: allreduce_def mpi_ops_allreduce_def mpi_ops_allgather_def)



lemma reduce_gradients_pairs:
  "reduce_gradients opt n loss g acc gs = Inr (rs, g') \<Longrightarrow>
   \<exists>rs'. rs = acc @ rs' \<and> list_all2 kept gs rs'"
proof (induction gs arbitrary: g acc)
  case Nil
  then show ?case by simp
next
  case (Cons p gs)
  obtain grad var where p: "p = (grad, var)" by (cases p)
  from Cons.prems p obtain a g1 where
    r: "reduce_gradients opt n loss g1 (acc @ [(a, var)]) gs = Inr (rs, g')" and
    a: "(a = None) = (grad = None)"
    by (auto split: sum.splits option.splits if_splits prod.splits)
  from Cons.IH [OF r] obtain rs' where "rs = (acc @ [(a, var)]) @ rs'" "list_all2 kept gs rs'"
    by blast
  with a p have "rs = acc @ ((a, var) # rs') \<and> list_all2 kept (p # gs) ((a, var) # rs')"
    by (simp add: kept_def)
  then show ?case by blast
qed


lemma reduce_gradients_skip_absent:
  "map_sum id snd (reduce_gradients opt n loss g acc gs) =
   map_sum id snd (reduce_gradients opt n loss g acc' (filter (\<lambda>p. fst p \<noteq> None) gs))"
proof (induction gs arbitrary: g acc acc')
  case Nil
  then show ?case by simp
next
  case (Cons p gs)
  obtain grad var where p: "p = (grad, var)" by (cases p)
  show ?case
  proof (cases grad)
    case None
    with p Cons.IH [of g "acc @ [(None, var)]" acc'] show ?thesis by simp
  next
    case (Some gr)
    show ?thesis
    proof (cases "deferred opt")
      case True
      show ?thesis
      proof (cases "deferred_allreduce opt n loss g gr")
        case (Inl e)
        with p Some True show ?thesis by simp
      next
        case (Inr res)
        obtain a g1 where "res = (a, g1)" by (cases res)
        with Inr p Some True Cons.IH [of g1 "acc @ [(Some a, var)]" "acc' @ [(Some a, var)]"]
        show ?thesis by simp
      qed
    next
      case False
      obtain a g1 where "allreduce n g gr True (device_dense opt) (device_sparse opt) = (a, g1)"
        by (cases "allreduce n g gr True (device_dense opt) (device_sparse opt)")
      with p Some False Cons.IH [of g1 "acc @ [(Some a, var)]" "acc' @ [(Some a, var)]"]
      show ?thesis by simp
    qed
  qed
qed



text \<open>C6. A pair whose gradient is absent is returned in place as it is, and the call
  treats the list as if the pair were not there: the graph it builds, or the error it
  raises, is the one of the list without the absent pairs, at every group size and in
  both modes. Nothing is reduced for the pair and it causes no error.\<close>

theorem absent_gradient_kept:
  "(\<forall>rs g'. compute_gradients opt n loss g gradients = Inr (rs, g') \<longrightarrow>
      (\<forall>i<length gradients. fst (gradients ! i) = None \<longrightarrow> rs ! i = gradients ! i)) \<and>
   map_sum id snd (compute_gradients opt n loss g gradients) =
   map_sum id snd (compute_gradients opt n loss g (filter (\<lambda>p. fst p \<noteq> None) gradients))"
proof (intro conjI allI impI)
  fix rs g' i
  assume c: "compute_gradients opt n loss g gradients = Inr (rs, g')"
    and i: "i < length gradients" and a: "fst (gradients ! i) = None"
  show "rs ! i = gradients ! i"
  proof (cases "n > 1")
    case True
    with c have "reduce_gradients opt n loss g [] gradients = Inr (rs, g')"
      by (simp add: compute_gradients_def)
    from reduce_gradients_pairs [OF this] have "list_all2 kept gradients rs" by simp
    from list_all2_nthD [OF this i] a show ?thesis
      by (simp add: kept_def prod_eq_iff)
  next
    case False
    with c show ?thesis by (simp add: compute_gradients_def)
  qed
next
  show "map_sum id snd (compute_gradients opt n loss g gradients) =
        map_sum id snd (compute_gradients opt n loss g (filter (\<lambda>p. fst p \<noteq> None) gradients))"
    using reduce_gradients_skip_absent [of opt n loss g "[]" gradients "[]"]
    by (simp add: compute_gradients_def)
qed

theorem absent_gradient_kept_witness:
  "\<exists>rs g'. compute_gradients \<lparr>device_dense = [], device_sparse = [], deferred = False\<rparr> 2
       (LocalTensor ''loss:0'' []) (new_graph 0)
       [(Some (Tensor (LocalTensor ''g/w:0'' [2])), ''w''), (None, ''b'')]
       = Inr (rs, g') \<and> rs ! 1 = (None, ''b'') \<and>
     map_sum id snd (compute_gradients \<lparr>device_dense = [], device_sparse = [], deferred = False\<rparr> 2
       (LocalTensor ''loss:0'' []) (new_graph 0)
       [(Some (Tensor (LocalTensor ''g/w:0'' [2])), ''w'')]) = Inr g'"
proof -
  let ?opt = "\<lparr>device_dense = [], device_sparse = [], deferred = False\<rparr>"
  let ?gs = "[(Some (Tensor (LocalTensor ''g/w:0'' [2])), ''w''), (None, ''b'')]"
  note t = absent_gradient_kept [of ?opt 2 "LocalTensor ''loss:0'' []" "new_graph 0" ?gs]
  have "\<exists>rs g'. compute_gradients ?opt 2 (LocalTensor ''loss:0'' []) (new_graph 0) ?gs = Inr (rs, g')"
    by (simp add: compute_gradients_def allreduce_def mpi_ops_allreduce_def)
  then obtain rs g' where
    c: "compute_gradients ?opt 2 (LocalTensor ''loss:0'' []) (new_graph 0) ?gs = Inr (rs, g')"
    by blast
  with t have "rs ! 1 = ?gs ! 1" by simp
  moreover from t c have "map_sum id snd (compute_gradients ?opt 2 (LocalTensor ''loss:0'' [])
       (new_graph 0) [(Some (Tensor (LocalTensor ''g/w:0'' [2])), ''w'')]) = Inr g'"
    by simp
  ultimately show ?thesis using c by simp
qed

section \<open>The flip batch\<close>

text \<open>Outside deferred mode, and at group size 1, \<open>compute_gradients\<close> registers no
  flip instruction: a hook constructed afterwards is the one constructed before.\<close>

lemma reduce_gradients_immediate:
  "\<not> deferred opt \<Longrightarrow> reduce_gradients opt n loss g acc gs = Inr (rs, g') \<Longrightarrow>
   collections g' = collections g \<and> variables g' = variables g \<and> graph_id g' = graph_id g"
proof (induction gs arbitrary: g acc)
  case Nil
  then show ?case by simp
next
  case (Cons p gs)
  obtain grad var where p: "p = (grad, var)" by (cases p)
  show ?case
  proof (cases grad)
    case None
    with Cons p show ?thesis by simp
  next
    case (Some gr)
    obtain a g1 where
      d: "allreduce n g gr True (device_dense opt) (device_sparse opt) = (a, g1)"
      by (cases "allreduce n g gr True (device_dense opt) (device_sparse opt)")
    with Cons.prems p Some have
      r: "reduce_gradients opt n loss g1 (acc @ [(Some a, var)]) gs = Inr (rs, g')"
      by simp
    from Cons.IH [OF Cons.prems(1) r] allreduce_effect [OF d Cons.prems(1), of var]
    show ?thesis by simp
  qed
qed

lemma compute_gradients_registers_nothing:
  assumes "\<not> deferred opt \<or> n \<le> 1"
    and "compute_gradients opt n loss g gradients = Inr (rs, g')"
  shows "get_collection g' GRAD_FLIP_OPS = get_collection g GRAD_FLIP_OPS"
    and "PostStepHook_init g' = PostStepHook_init g"
proof -
  have "collections g' = collections g \<and> graph_id g' = graph_id g"
  proof (cases "n > 1")
    case True
    with assms have d: "\<not> deferred opt"
      and r: "reduce_gradients opt n loss g [] gradients = Inr (rs, g')"
      by (simp_all add: compute_gradients_def)
    from reduce_gradients_immediate [OF d r] show ?thesis by simp
  next
    case False
    with assms(2) show ?thesis by (simp add: compute_gradients_def)
  qed
  then show "get_collection g' GRAD_FLIP_OPS = get_collection g GRAD_FLIP_OPS"
    and "PostStepHook_init g' = PostStepHook_init g"
    by (simp_all add: get_collection_def PostStepHook_init_def)
qed

text \<open>C7. With no flip instruction registered when the hook is constructed,
  \<open>after_run\<close> returns the session as it is: no \<open>session.run\<close> is issued. With at least
  one, it issues exactly one \<open>session.run\<close>, of the group of all registered flip
  instructions.\<close>

theorem after_run_batch:
  "(get_collection g GRAD_FLIP_OPS = [] \<longrightarrow> after_run (PostStepHook_init g) n feed s = Some s) \<and>
   (get_collection g GRAD_FLIP_OPS \<noteq> [] \<longrightarrow>
      after_run (PostStepHook_init g) n feed s =
        (case run_ops n feed (get_collection g GRAD_FLIP_OPS) (var_values s) of
           None \<Rightarrow> None
         | Some vars' \<Rightarrow>
             Some \<lparr>var_values = vars',
                   run_calls = run_calls s @ [Group (graph_id g) (get_collection g GRAD_FLIP_OPS)]\<rparr>))"
  by (simp add: after_run_def PostStepHook_init_def session_run_def)

theorem after_run_batch_witness:
  "after_run (PostStepHook_init (new_graph 0)) 2 (\<lambda>nm q. []) (new_session (new_graph 0))
     = Some (new_session (new_graph 0)) \<and>
   map_option run_calls
     (after_run (PostStepHook_init (add_to_collection (new_graph 0) GRAD_FLIP_OPS
         (Assign 0 ''g/w_r'' (ReadVariable ''g/w_c'')))) 2 (\<lambda>nm q. []) (new_session (new_graph 0)))
     = Some [Group 0 [Assign 0 ''g/w_r'' (ReadVariable ''g/w_c'')]]"
  using after_run_batch [of "new_graph 0" 2 "\<lambda>nm q. []" "new_session (new_graph 0)"]
    after_run_batch [of "add_to_collection (new_graph 0) GRAD_FLIP_OPS
         (Assign 0 ''g/w_r'' (ReadVariable ''g/w_c''))" 2 "\<lambda>nm q. []" "new_session (new_graph 0)"]
  by (simp add: get_collection_def new_graph_def add_to_collection_def new_session_def list_all_iff)

section \<open>Caching the broadcast operation\<close>

lemma broadcast_assigns_graph_id:
  "broadcast_assigns g dev rt vs = (ops, g1) \<Longrightarrow> graph_id g1 = graph_id g"
  by (induction vs arbitrary: g ops g1)
     (auto simp: mpi_ops_broadcast_def split: prod.splits)

lemma broadcast_global_variables_graph:
  "broadcast_global_variables g dev rt = (opn, g1) \<Longrightarrow>
   graph_id g1 = graph_id g \<and> op_graph opn = graph_id g"
  by (auto simp: broadcast_global_variables_def split: prod.splits dest: broadcast_assigns_graph_id)

text \<open>C9. When the hook holds a broadcast operation built in the current default graph,
  \<open>begin\<close> changes neither the hook nor the graph. When the operation it holds belongs to
  another graph, \<open>begin\<close> builds the broadcast of the current graph's variables and
  replaces the stale operation by it. After any call of \<open>begin\<close> the hook holds an
  operation of the current graph, so calling it again in the same graph does nothing.\<close>

theorem hook_begin_cached:
  "(\<forall>opn. bcast_op h = Some opn \<and> op_graph opn = graph_id g \<longrightarrow> hook_begin h g = (h, g)) \<and>
   (\<forall>opn. bcast_op h = Some opn \<and> op_graph opn \<noteq> graph_id g \<longrightarrow>
      hook_begin h g =
        (h\<lparr>bcast_op := Some (fst (broadcast_global_variables g (device h) (root_rank h)))\<rparr>,
         snd (broadcast_global_variables g (device h) (root_rank h)))) \<and>
   (\<forall>h1 g1. hook_begin h g = (h1, g1) \<longrightarrow>
      (\<exists>opn. bcast_op h1 = Some opn \<and> op_graph opn = graph_id g1) \<and> hook_begin h1 g1 = (h1, g1))"
proof (intro conjI allI impI)
  fix opn assume "bcast_op h = Some opn \<and> op_graph opn = graph_id g"
  then show "hook_begin h g = (h, g)" by (simp add: hook_begin_def)
next
  fix opn assume "bcast_op h = Some opn \<and> op_graph opn \<noteq> graph_id g"
  then show "hook_begin h g =
        (h\<lparr>bcast_op := Some (fst (broadcast_global_variables g (device h) (root_rank h)))\<rparr>,
         snd (broadcast_global_variables g (device h) (root_rank h)))"
    by (simp add: hook_begin_def split: prod.splits)
next
  fix h1 g1 assume b: "hook_begin h g = (h1, g1)"
  show "\<exists>opn. bcast_op h1 = Some opn \<and> op_graph opn = graph_id g1"
  proof (cases "case bcast_op h of None \<Rightarrow> True | Some opn \<Rightarrow> op_graph opn \<noteq> graph_id g")
    case True
    obtain opn g2 where bg: "broadcast_global_variables g (device h) (root_rank h) = (opn, g2)"
      by (cases "broadcast_global_variables g (device h) (root_rank h)")
    with b True have "h1 = h\<lparr>bcast_op := Some opn\<rparr>" "g1 = g2"
      by (simp_all add: hook_begin_def)
    with broadcast_global_variables_graph [OF bg] show ?thesis by simp
  next
    case False
    with b have "h1 = h" "g1 = g" by (simp_all add: hook_begin_def)
    with False show ?thesis by (auto split: option.splits)
  qed
  then show "hook_begin h1 g1 = (h1, g1)" by (auto simp: hook_begin_def)
qed

theorem hook_begin_cached_witness:
  "hook_begin
     (fst (hook_begin (BroadcastGlobalVariablesHook_init 0 [])
             ((new_graph 0)\<lparr>variables := [(''w'', zero_buffer [2])]\<rparr>)))
     (snd (hook_begin (BroadcastGlobalVariablesHook_init 0 [])
             ((new_graph 0)\<lparr>variables := [(''w'', zero_buffer [2])]\<rparr>)))
   = hook_begin (BroadcastGlobalVariablesHook_init 0 [])
       ((new_graph 0)\<lparr>variables := [(''w'', zero_buffer [2])]\<rparr>) \<and>
   bcast_op (fst (hook_begin (BroadcastGlobalVariablesHook_init 0 [])
       ((new_graph 0)\<lparr>variables := [(''w'', zero_buffer [2])]\<rparr>)))
   = Some (Group 0 [Assign 0 ''w'' (HorovodBroadcast [] (ReadVariable ''w'') 0)]) \<and>
   bcast_op (fst (hook_begin
       (fst (hook_begin (BroadcastGlobalVariablesHook_init 0 [])
             ((new_graph 0)\<lparr>variables := [(''w'', zero_buffer [2])]\<rparr>)))
       ((new_graph 1)\<lparr>variables := [(''w'', zero_buffer [2])]\<rparr>)))
   = Some (Group 1 [Assign 1 ''w'' (HorovodBroadcast [] (ReadVariable ''w'') 0)])"
proof -
  let ?h0 = "BroadcastGlobalVariablesHook_init 0 []"
  let ?g = "(new_graph 0)\<lparr>variables := [(''w'', zero_buffer [2])]\<rparr>"
  let ?g2 = "(new_graph 1)\<lparr>variables := [(''w'', zero_buffer [2])]\<rparr>"
  let ?h1 = "fst (hook_begin ?h0 ?g)" and ?g1 = "snd (hook_begin ?h0 ?g)"
  have b: "bcast_op ?h1 = Some (Group 0 [Assign 0 ''w'' (HorovodBroadcast [] (ReadVariable ''w'') 0)])"
    by (simp add: hook_begin_def BroadcastGlobalVariablesHook_init_def broadcast_global_variables_def
        global_variables_def mpi_ops_broadcast_def new_graph_def)
  have e: "hook_begin ?h0 ?g = (?h1, ?g1)" by simp
  from hook_begin_cached [of ?h0 ?g] e have 1: "hook_begin ?h1 ?g1 = (?h1, ?g1)" by blast
  have stale: "op_graph (Group 0 [Assign 0 ''w'' (HorovodBroadcast [] (ReadVariable ''w'') 0)])
                 \<noteq> graph_id ?g2"
    by (simp add: new_graph_def)
  from hook_begin_cached [of ?h1 ?g2] b stale
  have "hook_begin ?h1 ?g2 =
        (?h1\<lparr>bcast_op := Some (fst (broadcast_global_variables ?g2 (device ?h1) (root_rank ?h1)))\<rparr>,
         snd (broadcast_global_variables ?g2 (device ?h1) (root_rank ?h1)))"
    by blast
  then have 2: "bcast_op (fst (hook_begin ?h1 ?g2)) =
        Some (Group 1 [Assign 1 ''w'' (HorovodBroadcast [] (ReadVariable ''w'') 0)])"
    by (simp add: hook_begin_def BroadcastGlobalVariablesHook_init_def broadcast_global_variables_def
        global_variables_def mpi_ops_broadcast_def new_graph_def)
  from 1 b 2 show ?thesis by simp
qed

section \<open>The deferred path\<close>

lemma map_fst_buffer_variables: "map fst (buffer_variables ls) = buffer_names ls"
  by (induction ls) (auto simp: buffer_variables_def buffer_names_def)


lemma buffer_names_member:
  "p \<in> set ls \<Longrightarrow>
   buffer_name (fst p) ''_r'' \<in> set (buffer_names ls) \<and> buffer_name (fst p) ''_c'' \<in> set (buffer_names ls)"
  by (induction ls) (auto simp: buffer_names_def)


lemma deferred_allreduce_InrD:
  assumes "deferred_allreduce opt n loss g gr = Inr (a, g1)"
  obtains nm shp where "gr = Tensor (LocalTensor nm shp)"
    and "buffer_name nm ''_r'' \<notin> set (global_variables g)"
    and "buffer_name nm ''_c'' \<notin> set (global_variables g)"
    and "a = Tensor (pending_reduced opt n loss nm)"
    and "variables g1 = variables g @ buffer_variables [(nm, shp)]"
    and "graph_id g1 = graph_id g"
    and "collections g1 UPDATE_OPS = collections g UPDATE_OPS @ [stage_op (graph_id g) (nm, shp)]"
    and "collections g1 GRAD_FLIP_OPS = collections g GRAD_FLIP_OPS @ [flip_op (graph_id g) (nm, shp)]"
proof -
  from deferred_allreduce_Inr_local [OF assms] obtain nm shp where
    gr: "gr = Tensor (LocalTensor nm shp)" by blast
  with assms have "buffer_name nm ''_r'' \<notin> set (global_variables g) \<and>
     buffer_name nm ''_c'' \<notin> set (global_variables g) \<and>
     a = Tensor (pending_reduced opt n loss nm) \<and>
     variables g1 = variables g @ buffer_variables [(nm, shp)] \<and>
     graph_id g1 = graph_id g \<and>
     collections g1 UPDATE_OPS = collections g UPDATE_OPS @ [stage_op (graph_id g) (nm, shp)] \<and>
     collections g1 GRAD_FLIP_OPS = collections g GRAD_FLIP_OPS @ [flip_op (graph_id g) (nm, shp)]"
    by (auto simp: deferred_allreduce_local pending_reduced_def buffer_variables_def
        stage_op_def flip_op_def split: if_splits)
  with gr that show ?thesis by blast
qed

lemma reduce_gradients_deferred:
  assumes "deferred opt"
    and "reduce_gradients opt n loss g acc gs = Inr (rs, g')"
  shows "variables g' = variables g @ buffer_variables (local_gradients gs) \<and>
         graph_id g' = graph_id g \<and>
         collections g' UPDATE_OPS =
           collections g UPDATE_OPS @ map (stage_op (graph_id g)) (local_gradients gs) \<and>
         collections g' GRAD_FLIP_OPS =
           collections g GRAD_FLIP_OPS @ map (flip_op (graph_id g)) (local_gradients gs) \<and>
         distinct (buffer_names (local_gradients gs)) \<and>
         set (buffer_names (local_gradients gs)) \<inter> set (global_variables g) = {} \<and>
         list_all2 (\<lambda>p q. case fst p of None \<Rightarrow> q = p
                           | Some gr \<Rightarrow> (\<exists>nm shp. gr = Tensor (LocalTensor nm shp) \<and>
                                q = (Some (Tensor (pending_reduced opt n loss nm)), snd p)))
           gs (drop (length acc) rs)"
  using assms(2)
proof (induction gs arbitrary: g acc)
  case Nil
  then show ?case by (simp add: buffer_variables_def buffer_names_def)
next
  case (Cons p gs)
  obtain grad var where p: "p = (grad, var)" by (cases p)
  show ?case
  proof (cases grad)
    case None
    with Cons.prems p have r: "reduce_gradients opt n loss g (acc @ [(None, var)]) gs = Inr (rs, g')"
      by simp
    from reduce_gradients_pairs [OF r] obtain rs' where rs: "rs = (acc @ [(None, var)]) @ rs'"
      by blast
    then have d: "drop (length acc) rs = (None, var) # drop (length (acc @ [(None, var)])) rs"
      by simp
    from Cons.IH [OF r] p None show ?thesis
      by (simp only: d) simp
  next
    case (Some gr)
    with Cons.prems p assms(1) obtain a g1 where
      d: "deferred_allreduce opt n loss g gr = Inr (a, g1)" and
      r: "reduce_gradients opt n loss g1 (acc @ [(Some a, var)]) gs = Inr (rs, g')"
      by (auto split: sum.splits)
    from reduce_gradients_pairs [OF r] obtain rs' where rs: "rs = (acc @ [(Some a, var)]) @ rs'"
      by blast
    then have dr: "drop (length acc) rs = (Some a, var) # drop (length (acc @ [(Some a, var)])) rs"
      by simp
    from d obtain nm shp where gr: "gr = Tensor (LocalTensor nm shp)"
      and fr: "buffer_name nm ''_r'' \<notin> set (global_variables g)"
      and fc: "buffer_name nm ''_c'' \<notin> set (global_variables g)"
      and a: "a = Tensor (pending_reduced opt n loss nm)"
      and v: "variables g1 = variables g @ buffer_variables [(nm, shp)]"
      and gi: "graph_id g1 = graph_id g"
      and cu: "collections g1 UPDATE_OPS = collections g UPDATE_OPS @ [stage_op (graph_id g) (nm, shp)]"
      and cf: "collections g1 GRAD_FLIP_OPS = collections g GRAD_FLIP_OPS @ [flip_op (graph_id g) (nm, shp)]"
      by (rule deferred_allreduce_InrD)
    have lg: "local_gradients (p # gs) = (nm, shp) # local_gradients gs"
      using p Some gr by simp
    have gv1: "set (global_variables g1) = set (global_variables g) \<union> {buffer_name nm ''_r'', buffer_name nm ''_c''}"
      using v by (auto simp: global_variables_def buffer_variables_def)
    note ih = Cons.IH [OF r]
    have 1: "variables g' = variables g @ buffer_variables (local_gradients (p # gs))"
      using ih v lg by (simp add: buffer_variables_def)
    have 2: "graph_id g' = graph_id g" using ih gi by simp
    have 3: "collections g' UPDATE_OPS =
           collections g UPDATE_OPS @ map (stage_op (graph_id g)) (local_gradients (p # gs))"
      using ih cu gi lg by simp
    have 4: "collections g' GRAD_FLIP_OPS =
           collections g GRAD_FLIP_OPS @ map (flip_op (graph_id g)) (local_gradients (p # gs))"
      using ih cf gi lg by simp
    have 5: "distinct (buffer_names (local_gradients (p # gs)))"
      using ih gv1 lg by (auto simp: buffer_names_def)
    have 6: "set (buffer_names (local_gradients (p # gs))) \<inter> set (global_variables g) = {}"
      using ih gv1 lg fr fc by (auto simp: buffer_names_def)
    have 7: "list_all2 (\<lambda>p q. case fst p of None \<Rightarrow> q = p
                           | Some gr \<Rightarrow> (\<exists>nm shp. gr = Tensor (LocalTensor nm shp) \<and>
                                q = (Some (Tensor (pending_reduced opt n loss nm)), snd p)))
           (p # gs) (drop (length acc) rs)"
      using ih p Some gr a by (simp only: dr) simp
    from 1 2 3 4 5 6 7 show ?thesis by blast
  qed
qed





lemma local_gradients_nth:
  "i < length gs \<Longrightarrow> gs ! i = (Some (Tensor (LocalTensor nm shp)), var) \<Longrightarrow>
   (nm, shp) \<in> set (local_gradients gs)"
proof (induction gs arbitrary: i rule: local_gradients.induct)
  case 1
  then show ?case by simp
next
  case (2 nm' shp' var' rest)
  then show ?case by (cases i) auto
qed (auto simp: nth_Cons split: nat.splits)

lemma compute_gradients_deferred_entry:
  assumes "deferred opt" and "1 < n"
    and cg: "compute_gradients opt n loss g0 gradients = Inr (rs, g)"
    and i: "i < length gradients" and gi: "gradients ! i = (Some gr, var)"
  obtains nm shp where "gr = Tensor (LocalTensor nm shp)"
    and "rs ! i = (Some (Tensor (pending_reduced opt n loss nm)), var)"
    and "(nm, shp) \<in> set (local_gradients gradients)"
proof -
  from cg assms(2) have r: "reduce_gradients opt n loss g0 [] gradients = Inr (rs, g)"
    by (simp add: compute_gradients_def)
  from reduce_gradients_deferred [OF assms(1) r]
  have "list_all2 (\<lambda>p q. case fst p of None \<Rightarrow> q = p
                           | Some gr \<Rightarrow> (\<exists>nm shp. gr = Tensor (LocalTensor nm shp) \<and>
                                q = (Some (Tensor (pending_reduced opt n loss nm)), snd p)))
           gradients rs"
    by simp
  from list_all2_nthD [OF this i] gi obtain nm shp where
    a: "gr = Tensor (LocalTensor nm shp)"
    and b: "rs ! i = (Some (Tensor (pending_reduced opt n loss nm)), var)"
    by auto
  from local_gradients_nth [OF i] gi a have "(nm, shp) \<in> set (local_gradients gradients)"
    by simp
  with a b that show ?thesis by blast
qed

lemma buffer_name_examples:
  "buffer_name ''g/w:0'' ''_r'' = ''g/w_r''" "buffer_name ''g/w:0'' ''_c'' = ''g/w_c''"
  "buffer_name ''g/w:1'' ''_r'' = ''g/w_r''" "buffer_name ''g/w:1'' ''_c'' = ''g/w_c''"
  "buffer_name ''g_1/w:0'' ''_r'' = ''g_1/w_r''" "buffer_name ''g_1/w:0'' ''_c'' = ''g_1/w_c''"
  by (simp_all add: buffer_name_def)

lemma deferred_example:
  "compute_gradients \<lparr>device_dense = [], device_sparse = [], deferred = True\<rparr> 2
       (LocalTensor ''loss:0'' []) (new_graph 0)
       [(Some (Tensor (LocalTensor ''g/w:0'' [2])), ''w'')] =
   Inr ([(Some (Tensor (pending_reduced \<lparr>device_dense = [], device_sparse = [], deferred = True\<rparr>
                  2 (LocalTensor ''loss:0'' []) ''g/w:0'')), ''w'')],
        \<lparr>graph_id = 0,
         variables = [(''g/w_r'', zero_buffer [2]), (''g/w_c'', zero_buffer [2])],
         collections = (\<lambda>key. [])
           (UPDATE_OPS := [Assign 0 ''g/w_c'' (LocalTensor ''g/w:0'' [2])],
            GRAD_FLIP_OPS := [Assign 0 ''g/w_r'' (ReadVariable ''g/w_c'')]),
         mpi_ops = [HorovodAllreduce [] (ReadVariable ''g/w_r'')]\<rparr>)"
  by (simp add: compute_gradients_def deferred_allreduce_local buffer_name_examples
      global_variables_def new_graph_def pending_reduced_def)




section \<open>Running the deferred path\<close>





lemma eval_pending_reduced:
  "eval n feed vars (pending_reduced opt n loss nm) r =
     map_option (map (\<lambda>x. x / of_nat n))
       (collective_sum (map (\<lambda>q. Some (vars (buffer_name nm ''_r'') q)) [0..<n]))"
proof -
  have "eval n feed vars (ReadVariable (buffer_name nm ''_r'')) =
        (\<lambda>q. Some (vars (buffer_name nm ''_r'') q))"
    by (rule ext) simp
  then show ?thesis by (simp add: pending_reduced_def)
qed

lemma collective_sum_zeros:
  "collective_sum (replicate (Suc k) (Some (replicate m 0))) = Some (replicate m 0)"
proof (induction k)
  case 0
  then show ?case by simp
next
  case (Suc k)
  then show ?case
    by (simp add: elementwise_add_def)
qed

text \<open>C10. In deferred mode with group size above 1, in a new session (no flip has run),
  the tensor returned for a present gradient evaluates on every rank to the array of
  zeros of the gradient's shape, whatever the ranks compute locally.\<close>

theorem deferred_first_gradient_zero:
  assumes "deferred opt" and "1 < n"
    and cg: "compute_gradients opt n loss g0 gradients = Inr (rs, g)"
    and i: "i < length gradients" and gi: "gradients ! i = (Some gr, var)"
  shows "\<exists>nm shp t. gr = Tensor (LocalTensor nm shp) \<and> rs ! i = (Some (Tensor t), var) \<and>
           (\<forall>feed r. eval n feed (var_values (new_session g)) t r
                       = Some (replicate (prod_list shp) 0))"
proof -
  from assms obtain nm shp where gr: "gr = Tensor (LocalTensor nm shp)"
    and rs: "rs ! i = (Some (Tensor (pending_reduced opt n loss nm)), var)"
    and mem: "(nm, shp) \<in> set (local_gradients gradients)"
    by (rule compute_gradients_deferred_entry)
  let ?ls = "local_gradients gradients"
  let ?r = "buffer_name nm ''_r''"
  from cg assms(2) have r: "reduce_gradients opt n loss g0 [] gradients = Inr (rs, g)"
    by (simp add: compute_gradients_def)
  note st = reduce_gradients_deferred [OF assms(1) r]
  from st have v: "variables g = variables g0 @ buffer_variables ?ls"
    and d: "distinct (buffer_names ?ls)"
    and f: "set (buffer_names ?ls) \<inter> set (global_variables g0) = {}"
    by simp_all
  from buffer_names_member [OF mem] have rin: "?r \<in> set (buffer_names ?ls)" by simp
  with f have "?r \<notin> fst ` set (variables g0)" by (auto simp: global_variables_def)
  then have none: "map_of (variables g0) ?r = None" by (simp add: map_of_eq_None_iff)
  have "(?r, zero_buffer shp) \<in> set (buffer_variables ?ls)"
    using mem by (force simp: buffer_variables_def)
  moreover have "distinct (map fst (buffer_variables ?ls))"
    using d by (simp add: map_fst_buffer_variables)
  ultimately have "map_of (buffer_variables ?ls) ?r = Some (zero_buffer shp)"
    by (rule map_of_is_SomeI [rotated])
  with none v have "map_of (variables g) ?r = Some (zero_buffer shp)"
    by (simp add: map_add_def)
  then have init: "var_values (new_session g) ?r = (\<lambda>q. replicate (prod_list shp) 0)"
    by (simp add: new_session_def initial_value_def zero_buffer_def)
  obtain k where n: "n = Suc k" using assms(2) by (cases n) simp_all
  have "map (\<lambda>q. Some (var_values (new_session g) ?r q)) [0..<n] =
        replicate (Suc k) (Some (replicate (prod_list shp) 0))"
    by (simp only: init n map_replicate_const) simp
  then have "eval n feed (var_values (new_session g)) (pending_reduced opt n loss nm) q =
        Some (replicate (prod_list shp) 0)" for feed q
    by (simp only: eval_pending_reduced collective_sum_zeros) simp
  with gr rs show ?thesis by blast
qed

theorem deferred_first_gradient_zero_witness:
  "\<exists>rs g t. compute_gradients \<lparr>device_dense = [], device_sparse = [], deferred = True\<rparr> 2
       (LocalTensor ''loss:0'' []) (new_graph 0)
       [(Some (Tensor (LocalTensor ''g/w:0'' [2])), ''w'')] = Inr (rs, g) \<and>
     rs ! 0 = (Some (Tensor t), ''w'') \<and>
     eval 2 (\<lambda>nm q. if q = 0 then [1, 2] else [3, 5]) (var_values (new_session g)) t 0
       = Some [0, 0]"
proof -
  let ?opt = "\<lparr>device_dense = [], device_sparse = [], deferred = True\<rparr>"
  let ?gs = "[(Some (Tensor (LocalTensor ''g/w:0'' [2])), ''w'')]"
  from deferred_example obtain rs g where
    c: "compute_gradients ?opt 2 (LocalTensor ''loss:0'' []) (new_graph 0) ?gs = Inr (rs, g)"
    by blast
  have "\<exists>nm shp t. Tensor (LocalTensor ''g/w:0'' [2]) = Tensor (LocalTensor nm shp) \<and>
          rs ! 0 = (Some (Tensor t), ''w'') \<and>
          (\<forall>feed r. eval 2 feed (var_values (new_session g)) t r = Some (replicate (prod_list shp) 0))"
    by (rule deferred_first_gradient_zero [OF _ _ c]) simp_all
  then obtain t where "rs ! 0 = (Some (Tensor t), ''w'')"
    and "\<forall>feed r. eval 2 feed (var_values (new_session g)) t r = Some (replicate (prod_list [2]) 0)"
    by auto
  with c show ?thesis by (auto simp: numeral_2_eq_2)
qed



end
